theory Spec2Isabelle
  imports Main
begin

section \<open>The blog application of \<^verbatim>\<open>main.py\<close>\<close>

text \<open>
  \<^verbatim>\<open>main.py\<close> is a Flask application over three SQLAlchemy tables. Each view function
  becomes a function from the state before the request to the outcome of the request: the
  response or the exception raised, and the state afterwards. The state is the content of
  the three tables and of the client's session cookie, which Flask-Login and \<^verbatim>\<open>flash\<close>
  write.

  What the libraries do is written out where the handlers rely on it:
  \<^item> an integer primary key of an SQLite table is the rowid: a new row gets 1 in an empty
    table and the largest id plus one otherwise;
  \<^item> \<^verbatim>\<open>db.session.commit()\<close> raises \<^verbatim>\<open>IntegrityError\<close> when a \<^verbatim>\<open>unique\<close> or
    \<^verbatim>\<open>nullable=False\<close> column is violated, and the transaction leaves no row behind;
  \<^item> an exception that leaves a view is the end of the request: nothing is committed;
  \<^item> \<^verbatim>\<open>render_template\<close>, \<^verbatim>\<open>redirect\<close> and \<^verbatim>\<open>url_for\<close> are the response value, with the
    context the view passes to the template.
  The classes of \<^verbatim>\<open>forms.py\<close> are not part of the sources: the validation of each form is
  a parameter \<open>validate\<close> of the view that uses it, and a field of a submitted form has the
  value of the same name in the request's form data (\<open>None\<close> when the request has none).
  \<^verbatim>\<open>generate_password_hash\<close>, \<^verbatim>\<open>check_password_hash\<close> and today's date are parameters too.
\<close>

subsection \<open>Tables\<close>

text \<open>\<^verbatim>\<open>class User\<close>, \<^verbatim>\<open>class BlogPost\<close>, \<^verbatim>\<open>class Comments\<close>: one record per row. A column that
  may be \<^verbatim>\<open>NULL\<close> is an option; the relationships are their foreign keys.\<close>

record user =
  user_id :: int
  email :: "string option"
  password :: string
  name :: "string option"

record blog_post =
  post_id :: int
  author_id :: "int option"
  title :: string
  subtitle :: string
  date :: string
  body :: string
  img_url :: string

record comment =
  comment_id :: int
  comment_author_id :: "int option"
  comment_post_id :: "int option"
  comment_text :: string

text \<open>The database \<^verbatim>\<open>blog.db\<close> and the session cookie: \<open>session_user_id\<close> is what
  \<^verbatim>\<open>login_user\<close> stores and \<^verbatim>\<open>logout_user\<close> removes, \<open>flashes\<close> what \<^verbatim>\<open>flash\<close> appends.\<close>

record state =
  users :: "user list"
  blog_posts :: "blog_post list"
  comments :: "comment list"
  session_user_id :: "int option"
  flashes :: "string list"

definition init_state :: state where
  "init_state = \<lparr>users = [], blog_posts = [], comments = [],
     session_user_id = None, flashes = []\<rparr>"

subsection \<open>Requests, responses, exceptions\<close>

datatype http_method = GET | HEAD | OPTIONS | POST | PUT | PATCH | DELETE

record request =
  req_method :: http_method
  req_form :: "(string \<times> string) list"

text \<open>The view functions, as \<^verbatim>\<open>url_for\<close> names them.\<close>

datatype endpoint =
    GetAllPosts | Register | Login | Logout | ShowPost int | About | Contact
  | AddNewPost | EditPost int | DeletePost int

text \<open>What a view returns: a redirect, or a template with the context it is given.\<close>

datatype response =
    Redirect endpoint
  | IndexPage "blog_post list"
  | RegisterPage
  | LoginPage
  | PostPage "blog_post option" "comment list"
  | AboutPage
  | ContactPage
  | MakePostPage "blog_post option"
  | AutomaticOptions

text \<open>
  The ways a request fails: \<^verbatim>\<open>abort(401)\<close> of \<^verbatim>\<open>login_required\<close>, \<^verbatim>\<open>abort(403)\<close> of
  \<^verbatim>\<open>admin_only\<close>, 405 from the URL map, and the exceptions no view catches:
  \<^verbatim>\<open>AttributeError\<close> (an attribute of \<^verbatim>\<open>None\<close> or of the anonymous user),
  \<^verbatim>\<open>IntegrityError\<close> from a commit, \<^verbatim>\<open>UnmappedInstanceError\<close> from deleting \<^verbatim>\<open>None\<close>, and
  the error of hashing a password that is \<^verbatim>\<open>None\<close>.
\<close>

datatype error =
    Unauthorized
  | Forbidden
  | MethodNotAllowed
  | AttributeError
  | IntegrityError
  | UnmappedInstanceError
  | HashError

type_synonym outcome = "(error + response) \<times> state"

type_synonym form_data = "(string \<times> string) list"

subsection \<open>Queries and form handling\<close>

text \<open>\<^verbatim>\<open>request.form.get(k)\<close> and \<^verbatim>\<open>form.k.data\<close>.\<close>

definition form_get :: "request \<Rightarrow> string \<Rightarrow> string option" where
  "form_get req k = map_of (req_form req) k"

text \<open>Flask-WTF: a form is submitted when the request method is one of
  \<^verbatim>\<open>POST, PUT, PATCH, DELETE\<close>; \<^verbatim>\<open>validate_on_submit\<close> is \<^verbatim>\<open>is_submitted() and validate()\<close>.\<close>

definition is_submitted :: "request \<Rightarrow> bool" where
  "is_submitted req = (req_method req \<in> {POST, PUT, PATCH, DELETE})"

definition validate_on_submit :: "(form_data \<Rightarrow> bool) \<Rightarrow> request \<Rightarrow> bool" where
  "validate_on_submit validate req = (is_submitted req \<and> validate (req_form req))"

text \<open>The id of a new row.\<close>

definition next_id :: "int list \<Rightarrow> int" where
  "next_id ids = (if ids = [] then 1 else Max (set ids) + 1)"

text \<open>\<^verbatim>\<open>User.query.get(int(user_id))\<close>, \<^verbatim>\<open>User.query.filter_by(email=email).first()\<close>,
  \<^verbatim>\<open>BlogPost.query.get(post_id)\<close>.\<close>

definition load_user :: "state \<Rightarrow> int \<Rightarrow> user option" where
  "load_user s i = find (\<lambda>u. user_id u = i) (users s)"

definition user_by_email :: "state \<Rightarrow> string option \<Rightarrow> user option" where
  "user_by_email s e = find (\<lambda>u. email u = e) (users s)"

definition get_post :: "state \<Rightarrow> int \<Rightarrow> blog_post option" where
  "get_post s i = find (\<lambda>p. post_id p = i) (blog_posts s)"

text \<open>Flask-Login's \<^verbatim>\<open>current_user\<close>: the user the session's id loads, or the anonymous user
  (\<open>None\<close> here), which has no \<^verbatim>\<open>id\<close> and is no mapped object.\<close>

definition current_user :: "state \<Rightarrow> user option" where
  "current_user s = (case session_user_id s of None \<Rightarrow> None | Some i \<Rightarrow> load_user s i)"

definition login_user :: "user \<Rightarrow> state \<Rightarrow> state" where
  "login_user u s = s\<lparr>session_user_id := Some (user_id u)\<rparr>"

definition logout_user :: "state \<Rightarrow> state" where
  "logout_user s = s\<lparr>session_user_id := None\<rparr>"

definition flash :: "string \<Rightarrow> state \<Rightarrow> state" where
  "flash msg s = s\<lparr>flashes := flashes s @ [msg]\<rparr>"

subsection \<open>Decorators\<close>

text \<open>Flask-Login's \<^verbatim>\<open>login_required\<close> (no \<^verbatim>\<open>login_view\<close> is configured, so an anonymous
  request is aborted with 401) and the application's \<^verbatim>\<open>admin_only\<close>.\<close>

definition login_required :: "(state \<Rightarrow> outcome) \<Rightarrow> state \<Rightarrow> outcome" where
  "login_required f s =
     (case current_user s of
        None \<Rightarrow> (Inl Unauthorized, s)
      | Some u \<Rightarrow> f s)"

definition admin_only :: "(state \<Rightarrow> outcome) \<Rightarrow> state \<Rightarrow> outcome" where
  "admin_only f s =
     (case current_user s of
        None \<Rightarrow> (Inl AttributeError, s)
      | Some u \<Rightarrow> if user_id u \<noteq> 1 then (Inl Forbidden, s) else f s)"

subsection \<open>Views\<close>

definition get_all_posts :: "state \<Rightarrow> outcome" where
  "get_all_posts s = (Inr (IndexPage (blog_posts s)), s)"

definition register ::
  "(form_data \<Rightarrow> bool) \<Rightarrow> (string \<Rightarrow> string) \<Rightarrow> request \<Rightarrow> state \<Rightarrow> outcome" where
  "register validate generate_password_hash req s =
     (if validate_on_submit validate req then
        (case form_get req ''password'' of
           None \<Rightarrow> (Inl HashError, s)
         | Some pw \<Rightarrow>
             let new_user = \<lparr>user_id = next_id (map user_id (users s)),
                              email = form_get req ''email'',
                              password = generate_password_hash pw,
                              name = form_get req ''name''\<rparr>
             in if email new_user \<noteq> None \<and> email new_user \<in> set (map email (users s))
                then (Inl IntegrityError, s)
                else (Inr (Redirect GetAllPosts),
                      login_user new_user (s\<lparr>users := users s @ [new_user]\<rparr>)))
      else (Inr RegisterPage, s))"

definition login ::
  "(form_data \<Rightarrow> bool) \<Rightarrow> (string \<Rightarrow> string \<Rightarrow> bool) \<Rightarrow> request \<Rightarrow> state \<Rightarrow> outcome" where
  "login validate check_password_hash req s =
     (if validate_on_submit validate req then
        (case user_by_email s (form_get req ''email'') of
           None \<Rightarrow> (Inl AttributeError, s)
         | Some u \<Rightarrow>
             (case form_get req ''password'' of
                None \<Rightarrow> (Inl HashError, s)
              | Some pw \<Rightarrow>
                  if check_password_hash (password u) pw
                  then (Inr (Redirect GetAllPosts), login_user u s)
                  else (Inr (Redirect Login), flash ''Try again please'' s)))
      else (Inr LoginPage, s))"

definition logout :: "state \<Rightarrow> outcome" where
  "logout s = (Inr (Redirect GetAllPosts), logout_user s)"

definition show_post :: "(form_data \<Rightarrow> bool) \<Rightarrow> request \<Rightarrow> int \<Rightarrow> state \<Rightarrow> outcome" where
  "show_post validate req pid s =
     (let requested_post = get_post s pid;
          all_comments = comments s
      in if validate_on_submit validate req then
           (case current_user s of
              None \<Rightarrow> (Inl AttributeError, s)
            | Some u \<Rightarrow>
                (case form_get req ''comment'' of
                   None \<Rightarrow> (Inl IntegrityError, s)
                 | Some txt \<Rightarrow>
                     let new_comment = \<lparr>comment_id = next_id (map comment_id (comments s)),
                                         comment_author_id = Some (user_id u),
                                         comment_post_id = map_option post_id requested_post,
                                         comment_text = txt\<rparr>
                     in (Inr (PostPage requested_post all_comments),
                         s\<lparr>comments := comments s @ [new_comment]\<rparr>)))
         else (Inr (PostPage requested_post all_comments), s))"

definition about :: "state \<Rightarrow> outcome" where
  "about s = (Inr AboutPage, s)"

definition contact :: "state \<Rightarrow> outcome" where
  "contact s = (Inr ContactPage, s)"

text \<open>The body of \<^verbatim>\<open>add_new_post\<close>, and the view with its two decorators.\<close>

definition add_new_post_body :: "(form_data \<Rightarrow> bool) \<Rightarrow> string \<Rightarrow> request \<Rightarrow> state \<Rightarrow> outcome" where
  "add_new_post_body validate today req s =
     (if validate_on_submit validate req then
        (case current_user s of
           None \<Rightarrow> (Inl AttributeError, s)
         | Some u \<Rightarrow>
             (case (form_get req ''title'', form_get req ''subtitle'',
                    form_get req ''body'', form_get req ''img_url'') of
                (Some t, Some st, Some b, Some i) \<Rightarrow>
                  if t \<in> set (map title (blog_posts s)) then (Inl IntegrityError, s)
                  else
                    let new_post = \<lparr>post_id = next_id (map post_id (blog_posts s)),
                                     author_id = Some (user_id u),
                                     title = t, subtitle = st, date = today,
                                     body = b, img_url = i\<rparr>
                    in (Inr (Redirect GetAllPosts),
                        s\<lparr>blog_posts := blog_posts s @ [new_post]\<rparr>)
              | _ \<Rightarrow> (Inl IntegrityError, s)))
      else (Inr (MakePostPage None), s))"

definition add_new_post :: "(form_data \<Rightarrow> bool) \<Rightarrow> string \<Rightarrow> request \<Rightarrow> state \<Rightarrow> outcome" where
  "add_new_post validate today req =
     login_required (admin_only (add_new_post_body validate today req))"

text \<open>The body of \<^verbatim>\<open>edit_post\<close>. \<open>author_data\<close> is \<^verbatim>\<open>edit_form.author.data\<close>, a field of
  \<^verbatim>\<open>forms.py\<close>: the id of the user it holds, or the exception of assigning it.\<close>

definition edit_post_body ::
  "(form_data \<Rightarrow> bool) \<Rightarrow> (form_data \<Rightarrow> error + int option) \<Rightarrow> request \<Rightarrow> int \<Rightarrow> state \<Rightarrow> outcome"
  where
  "edit_post_body validate author_data req pid s =
     (case get_post s pid of
        None \<Rightarrow> (Inl AttributeError, s)
      | Some post \<Rightarrow>
          if validate_on_submit validate req then
            (case author_data (req_form req) of
               Inl e \<Rightarrow> (Inl e, s)
             | Inr a \<Rightarrow>
                 (case (form_get req ''title'', form_get req ''subtitle'',
                        form_get req ''img_url'', form_get req ''body'') of
                    (Some t, Some st, Some i, Some b) \<Rightarrow>
                      if t \<in> set (map title (filter (\<lambda>p. post_id p \<noteq> pid) (blog_posts s)))
                      then (Inl IntegrityError, s)
                      else
                        (Inr (Redirect (ShowPost (post_id post))),
                         s\<lparr>blog_posts :=
                              map (\<lambda>p. if post_id p = pid
                                        then p\<lparr>title := t, subtitle := st, img_url := i,
                                               author_id := a, body := b\<rparr>
                                        else p) (blog_posts s)\<rparr>)
                  | _ \<Rightarrow> (Inl IntegrityError, s)))
          else (Inr (MakePostPage (Some post)), s))"

definition edit_post ::
  "(form_data \<Rightarrow> bool) \<Rightarrow> (form_data \<Rightarrow> error + int option) \<Rightarrow> request \<Rightarrow> int \<Rightarrow> state \<Rightarrow> outcome"
  where
  "edit_post validate author_data req pid =
     login_required (admin_only (edit_post_body validate author_data req pid))"

text \<open>The body of \<^verbatim>\<open>delete_post\<close>. The relationship \<^verbatim>\<open>BlogPost.comments\<close> has no delete
  cascade: deleting the post sets the foreign key of its comments to \<^verbatim>\<open>NULL\<close>.\<close>

definition delete_post_body :: "int \<Rightarrow> state \<Rightarrow> outcome" where
  "delete_post_body pid s =
     (case get_post s pid of
        None \<Rightarrow> (Inl UnmappedInstanceError, s)
      | Some post_to_delete \<Rightarrow>
          (Inr (Redirect GetAllPosts),
           s\<lparr>blog_posts := filter (\<lambda>p. post_id p \<noteq> pid) (blog_posts s),
             comments := map (\<lambda>c. if comment_post_id c = Some pid
                                   then c\<lparr>comment_post_id := None\<rparr> else c) (comments s)\<rparr>))"

definition delete_post :: "int \<Rightarrow> state \<Rightarrow> outcome" where
  "delete_post pid = login_required (admin_only (delete_post_body pid))"

subsection \<open>Routing\<close>

text \<open>The \<^verbatim>\<open>methods\<close> of each \<^verbatim>\<open>@app.route\<close>; a route that names none answers \<^verbatim>\<open>GET\<close>.\<close>

fun route_methods :: "endpoint \<Rightarrow> http_method list" where
  "route_methods GetAllPosts = [GET]"
| "route_methods Register = [GET, POST]"
| "route_methods Login = [GET, POST]"
| "route_methods Logout = [GET]"
| "route_methods (ShowPost pid) = [GET, POST]"
| "route_methods About = [GET]"
| "route_methods Contact = [GET]"
| "route_methods AddNewPost = [GET, POST]"
| "route_methods (EditPost pid) = [GET]"
| "route_methods (DeletePost pid) = [GET]"

text \<open>A rule that answers \<^verbatim>\<open>GET\<close> answers \<^verbatim>\<open>HEAD\<close> as well.\<close>

definition method_allowed :: "endpoint \<Rightarrow> http_method \<Rightarrow> bool" where
  "method_allowed ep m =
     (m \<in> set (route_methods ep) \<or> (m = HEAD \<and> GET \<in> set (route_methods ep)))"

text \<open>What the application is run with: the validation of the four forms, the author
  field of the post form, the two password functions and the date.\<close>

record env =
  validate_register :: "form_data \<Rightarrow> bool"
  validate_login :: "form_data \<Rightarrow> bool"
  validate_comment :: "form_data \<Rightarrow> bool"
  validate_post :: "form_data \<Rightarrow> bool"
  author_field :: "form_data \<Rightarrow> error + int option"
  generate_password_hash :: "string \<Rightarrow> string"
  check_password_hash :: "string \<Rightarrow> string \<Rightarrow> bool"
  today :: string

fun view_function :: "env \<Rightarrow> endpoint \<Rightarrow> request \<Rightarrow> state \<Rightarrow> outcome" where
  "view_function e GetAllPosts req = get_all_posts"
| "view_function e Register req = register (validate_register e) (generate_password_hash e) req"
| "view_function e Login req = login (validate_login e) (check_password_hash e) req"
| "view_function e Logout req = logout"
| "view_function e (ShowPost pid) req = show_post (validate_comment e) req pid"
| "view_function e About req = about"
| "view_function e Contact req = contact"
| "view_function e AddNewPost req = add_new_post (validate_post e) (today e) req"
| "view_function e (EditPost pid) req = edit_post (validate_post e) (author_field e) req pid"
| "view_function e (DeletePost pid) req = delete_post pid"

text \<open>Flask's dispatch: \<^verbatim>\<open>OPTIONS\<close> is answered without calling the view, a method the
  route does not list is refused with 405, any other request runs the view function.\<close>

definition dispatch_request :: "env \<Rightarrow> endpoint \<Rightarrow> request \<Rightarrow> state \<Rightarrow> outcome" where
  "dispatch_request e ep req s =
     (if req_method req = OPTIONS then (Inr AutomaticOptions, s)
      else if \<not> method_allowed ep (req_method req) then (Inl MethodNotAllowed, s)
      else view_function e ep req s)"

text \<open>The states the application can be in: the empty database of \<^verbatim>\<open>db.create_all()\<close>
  with an anonymous session, and every state a request leaves behind.\<close>

inductive reachable :: "state \<Rightarrow> bool" where
  reachable_init: "reachable init_state"
| reachable_step: "reachable s \<Longrightarrow> dispatch_request e ep req s = (r, s') \<Longrightarrow> reachable s'"

subsection \<open>The ids of the users\<close>

text \<open>The users are never deleted and get their ids from \<open>next_id\<close>: their ids are
  \<open>1, \<dots>, n\<close> in the order of the table.\<close>

definition users_inv :: "state \<Rightarrow> bool" where
  "users_inv s \<longleftrightarrow> map user_id (users s) = [1..int (length (users s))]"

section \<open>Properties\<close>

subsection \<open>New ids, and the ids of the users in reachable states\<close>

lemma next_id_fresh: "next_id ids \<notin> set ids"
proof (cases "ids = []")
  case True
  then show ?thesis by simp
next
  case False
  show ?thesis
  proof
    assume "next_id ids \<in> set ids"
    then have "next_id ids \<le> Max (set ids)" by simp
    with False show False by (simp add: next_id_def)
  qed
qed

lemma next_id_upto: "0 \<le> n \<Longrightarrow> next_id [1..n] = n + 1"
  by (auto simp: next_id_def Max_eq_iff)

lemma users_inv_init: "users_inv init_state"
  by (simp add: users_inv_def init_state_def)

lemma login_required_users:
  assumes "\<And>s. users (snd (f s)) = users s"
  shows "users (snd (login_required f s)) = users s"
  using assms by (simp add: login_required_def split: option.splits)

lemma admin_only_users:
  assumes "\<And>s. users (snd (f s)) = users s"
  shows "users (snd (admin_only f s)) = users s"
  using assms by (simp add: admin_only_def split: option.splits)

lemma login_users: "users (snd (login v c req s)) = users s"
  by (simp add: login_def login_user_def flash_def split: option.splits)

lemma show_post_users: "users (snd (show_post v req pid s)) = users s"
  by (simp add: show_post_def Let_def split: option.splits)

lemma add_new_post_users: "users (snd (add_new_post v d req s)) = users s"
  unfolding add_new_post_def
  by (intro login_required_users admin_only_users)
     (simp add: add_new_post_body_def Let_def split: option.splits)

lemma edit_post_users: "users (snd (edit_post v a req pid s)) = users s"
  unfolding edit_post_def
  by (intro login_required_users admin_only_users)
     (simp add: edit_post_body_def split: option.splits sum.splits)

lemma delete_post_users: "users (snd (delete_post pid s)) = users s"
  unfolding delete_post_def
  by (intro login_required_users admin_only_users)
     (simp add: delete_post_body_def split: option.splits)

lemma register_users_inv:
  assumes "users_inv s"
  shows "users_inv (snd (register v h req s))"
proof -
  let ?n = "int (length (users s))"
  from assms have ids: "map user_id (users s) = [1..?n]" by (simp add: users_inv_def)
  have "[1..?n] @ [?n + 1] = [1..?n + 1]" by (simp add: upto_rec2)
  with ids show ?thesis
    by (simp add: register_def users_inv_def login_user_def Let_def next_id_upto algebra_simps
        split: option.splits)
qed

lemma view_function_users_inv:
  assumes "users_inv s"
  shows "users_inv (snd (view_function e ep req s))"
proof (cases ep)
  case Register
  with assms show ?thesis by (simp add: register_users_inv)
qed (use assms in \<open>simp_all add: users_inv_def get_all_posts_def login_users logout_def
      logout_user_def show_post_users about_def contact_def add_new_post_users edit_post_users
      delete_post_users\<close>)

lemma dispatch_request_users_inv:
  "users_inv s \<Longrightarrow> users_inv (snd (dispatch_request e ep req s))"
  by (simp add: dispatch_request_def view_function_users_inv)

lemma reachable_users_inv: "reachable s \<Longrightarrow> users_inv s"
proof (induction rule: reachable.induct)
  case reachable_init
  show ?case by (rule users_inv_init)
next
  case (reachable_step s e ep req r s')
  from reachable_step.IH have "users_inv (snd (dispatch_request e ep req s))"
    by (rule dispatch_request_users_inv)
  with reachable_step.hyps(2) show ?case by simp
qed

lemma find_distinct_key:
  "distinct (map f xs) \<Longrightarrow> x \<in> set xs \<Longrightarrow> find (\<lambda>y. f y = f x) xs = Some x"
  by (induction xs) (auto simp: image_iff)

lemma users_inv_current_user:
  assumes "users_inv s" and "u \<in> set (users s)" and "session_user_id s = Some (user_id u)"
  shows "current_user s = Some u"
proof -
  from assms(1) have "distinct (map user_id (users s))" by (simp add: users_inv_def)
  from find_distinct_key [OF this assms(2)] assms(3) show ?thesis
    by (simp add: current_user_def load_user_def)
qed

lemma users_inv_Min:
  assumes "users_inv s" and "u \<in> set (users s)"
  shows "Min (user_id ` set (users s)) = 1"
proof -
  let ?n = "int (length (users s))"
  from assms(2) have "1 \<le> ?n" by (cases "users s") auto
  moreover from assms(1) have "user_id ` set (users s) = {1..?n}"
    by (metis users_inv_def set_map set_upto)
  ultimately show ?thesis by (simp add: Min_eq_iff)
qed

subsection \<open>The administrator\<close>

text \<open>
  Claim C1. In every reachable state the users have the ids \<open>1, \<dots>, n\<close> in the order of
  their registration, so the user \<^verbatim>\<open>admin_only\<close> lets through, the one whose id is 1, is
  the user with the least id, the first that registered. For a user \<open>u\<close> of the table who
  is logged in: if \<open>u\<close> has the least id, each of \<^verbatim>\<open>add_new_post\<close>, \<^verbatim>\<open>edit_post\<close> and
  \<^verbatim>\<open>delete_post\<close> runs its body; if not, each answers 403 and leaves the state as it is.
\<close>

theorem admin_only_admits_first_user:
  assumes "reachable s" and "u \<in> set (users s)" and "session_user_id s = Some (user_id u)"
  shows "(user_id u = Min (user_id ` set (users s)) \<longrightarrow>
            add_new_post v d req s = add_new_post_body v d req s \<and>
            edit_post v a req pid s = edit_post_body v a req pid s \<and>
            delete_post pid s = delete_post_body pid s) \<and>
         (user_id u \<noteq> Min (user_id ` set (users s)) \<longrightarrow>
            add_new_post v d req s = (Inl Forbidden, s) \<and>
            edit_post v a req pid s = (Inl Forbidden, s) \<and>
            delete_post pid s = (Inl Forbidden, s))"
proof -
  from assms(1) have inv: "users_inv s" by (rule reachable_users_inv)
  from inv assms(2,3) have cu: "current_user s = Some u" by (rule users_inv_current_user)
  from inv assms(2) have "Min (user_id ` set (users s)) = 1" by (rule users_inv_Min)
  with cu show ?thesis
    by (simp add: add_new_post_def edit_post_def delete_post_def login_required_def admin_only_def)
qed

text \<open>An instance.\<close>

theorem admin_only_admits_first_user_witness:
  "add_new_post (\<lambda>f. True) ''November 06, 2026'' \<lparr>req_method = GET, req_form = []\<rparr>
     \<lparr>users = [\<lparr>user_id = 1, email = Some ''alice@x.com'', password = ''pw1'', name = Some ''Alice''\<rparr>,
               \<lparr>user_id = 2, email = Some ''bob@x.com'', password = ''pw2'', name = Some ''Bob''\<rparr>],
      blog_posts = [], comments = [], session_user_id = Some 2, flashes = []\<rparr>
   = (Inl Forbidden,
     \<lparr>users = [\<lparr>user_id = 1, email = Some ''alice@x.com'', password = ''pw1'', name = Some ''Alice''\<rparr>,
               \<lparr>user_id = 2, email = Some ''bob@x.com'', password = ''pw2'', name = Some ''Bob''\<rparr>],
      blog_posts = [], comments = [], session_user_id = Some 2, flashes = []\<rparr>)"
  (is "add_new_post ?v ?d ?req ?s2 = _")
proof -
  let ?e = "\<lparr>validate_register = \<lambda>f. True, validate_login = \<lambda>f. True,
             validate_comment = \<lambda>f. True, validate_post = \<lambda>f. True,
             author_field = \<lambda>f. Inr None, generate_password_hash = \<lambda>pw. pw,
             check_password_hash = \<lambda>h pw. h = pw, today = ''November 06, 2026''\<rparr>"
  let ?alice = "\<lparr>user_id = 1, email = Some ''alice@x.com'', password = ''pw1'', name = Some ''Alice''\<rparr>"
  let ?bob = "\<lparr>user_id = 2, email = Some ''bob@x.com'', password = ''pw2'', name = Some ''Bob''\<rparr>"
  let ?s1 = "\<lparr>users = [?alice], blog_posts = [], comments = [],
              session_user_id = Some 1, flashes = []\<rparr>"
  let ?r1 = "\<lparr>req_method = POST,
              req_form = [(''email'', ''alice@x.com''), (''password'', ''pw1''), (''name'', ''Alice'')]\<rparr>"
  let ?r2 = "\<lparr>req_method = POST,
              req_form = [(''email'', ''bob@x.com''), (''password'', ''pw2''), (''name'', ''Bob'')]\<rparr>"
  have d1: "dispatch_request ?e Register ?r1 init_state = (Inr (Redirect GetAllPosts), ?s1)"
    by (simp add: dispatch_request_def method_allowed_def register_def validate_on_submit_def
        is_submitted_def form_get_def next_id_def login_user_def init_state_def)
  have d2: "dispatch_request ?e Register ?r2 ?s1 = (Inr (Redirect GetAllPosts), ?s2)"
    by (simp add: dispatch_request_def method_allowed_def register_def validate_on_submit_def
        is_submitted_def form_get_def next_id_def login_user_def)
  have "reachable ?s2"
    by (rule reachable_step [OF reachable_step [OF reachable_init d1] d2])
  from admin_only_admits_first_user [OF this, of ?bob ?v ?d ?req]
  show ?thesis by simp
qed

subsection \<open>Login with an unknown email\<close>

text \<open>
  Claim C2. A submitted login form whose email no user has: \<^verbatim>\<open>first()\<close> returns \<^verbatim>\<open>None\<close> and
  \<^verbatim>\<open>user.password\<close> raises \<^verbatim>\<open>AttributeError\<close>. The request does not end in the flash
  message and redirect that a wrong password gets.
\<close>

theorem login_unknown_email_raises:
  assumes "validate_on_submit validate req"
    and "user_by_email s (form_get req ''email'') = None"
  shows "login validate check req s = (Inl AttributeError, s)"
  using assms by (simp add: login_def)

text \<open>An instance.\<close>

theorem login_unknown_email_raises_witness:
  "login (\<lambda>f. True) (\<lambda>h pw. h = pw)
     \<lparr>req_method = POST, req_form = [(''email'', ''nobody@x.com''), (''password'', ''pw'')]\<rparr>
     init_state
   = (Inl AttributeError, init_state)"
  using login_unknown_email_raises [of "\<lambda>f. True"
      "\<lparr>req_method = POST, req_form = [(''email'', ''nobody@x.com''), (''password'', ''pw'')]\<rparr>"
      init_state "\<lambda>h pw. h = pw"]
  by (simp add: validate_on_submit_def is_submitted_def user_by_email_def init_state_def)

text \<open>The sibling path: a known email with a wrong password is answered with the flash
  message and a redirect to the login page.\<close>

lemma login_wrong_password:
  assumes "validate_on_submit validate req"
    and "user_by_email s (form_get req ''email'') = Some u"
    and "form_get req ''password'' = Some pw"
    and "\<not> check (password u) pw"
  shows "login validate check req s = (Inr (Redirect Login), flash ''Try again please'' s)"
  using assms by (simp add: login_def)

subsection \<open>Comments of anonymous visitors\<close>

text \<open>
  Claim C3. A comment submitted from a session with no logged-in user: \<^verbatim>\<open>show_post\<close> has
  no \<^verbatim>\<open>login_required\<close>, the anonymous user is assigned to \<^verbatim>\<open>comment_author\<close>, and the
  request ends in \<^verbatim>\<open>AttributeError\<close>, not in 401. No comment is stored.
\<close>

theorem show_post_anonymous_raises:
  assumes "validate_on_submit validate req" and "current_user s = None"
  shows "show_post validate req pid s = (Inl AttributeError, s)"
  using assms by (simp add: show_post_def)

text \<open>An instance.\<close>

theorem show_post_anonymous_raises_witness:
  "show_post (\<lambda>f. True) \<lparr>req_method = POST, req_form = [(''comment'', ''Nice post'')]\<rparr> 1
     \<lparr>users = [\<lparr>user_id = 1, email = Some ''alice@x.com'', password = ''pw1'', name = Some ''Alice''\<rparr>],
      blog_posts = [\<lparr>post_id = 1, author_id = Some 1, title = ''Hello'', subtitle = ''First'',
                     date = ''November 06, 2026'', body = ''Text'', img_url = ''http://x/i.png''\<rparr>],
      comments = [], session_user_id = None, flashes = []\<rparr>
   = (Inl AttributeError,
     \<lparr>users = [\<lparr>user_id = 1, email = Some ''alice@x.com'', password = ''pw1'', name = Some ''Alice''\<rparr>],
      blog_posts = [\<lparr>post_id = 1, author_id = Some 1, title = ''Hello'', subtitle = ''First'',
                     date = ''November 06, 2026'', body = ''Text'', img_url = ''http://x/i.png''\<rparr>],
      comments = [], session_user_id = None, flashes = []\<rparr>)"
  (is "show_post ?v ?req 1 ?s = _")
  using show_post_anonymous_raises [of ?v ?req ?s 1]
  by (simp add: validate_on_submit_def is_submitted_def current_user_def)

text \<open>A logged-in user: the comment is stored, with this user as its author and the
  requested post as its target.\<close>

lemma show_post_logged_in_stores_comment:
  assumes "validate_on_submit validate req"
    and "current_user s = Some u"
    and "form_get req ''comment'' = Some txt"
  shows "show_post validate req pid s =
           (Inr (PostPage (get_post s pid) (comments s)),
            s\<lparr>comments := comments s @
                 [\<lparr>comment_id = next_id (map comment_id (comments s)),
                   comment_author_id = Some (user_id u),
                   comment_post_id = map_option post_id (get_post s pid),
                   comment_text = txt\<rparr>]\<rparr>)"
  using assms by (simp add: show_post_def Let_def)

subsection \<open>Registration and duplicate emails\<close>

text \<open>
  Claim C4. A submitted, valid registration form with email \<open>e\<close>: when a user has this
  email already, the commit raises \<^verbatim>\<open>IntegrityError\<close> (the unique column
  \<^verbatim>\<open>users.email\<close>) and the state, so the list of users, is unchanged; when no user has
  it, the new user is appended and logged in, with an id that no user had before.
\<close>

theorem register_duplicate_email:
  fixes s :: state
  defines "new_user h e pw n \<equiv>
     \<lparr>user_id = next_id (map user_id (users s)), email = Some e, password = h pw, name = n\<rparr>"
  assumes "validate_on_submit validate req"
    and "form_get req ''email'' = Some e"
    and "form_get req ''password'' = Some pw"
  shows "(Some e \<in> email ` set (users s) \<longrightarrow>
            register validate h req s = (Inl IntegrityError, s)) \<and>
         (Some e \<notin> email ` set (users s) \<longrightarrow>
            register validate h req s =
              (Inr (Redirect GetAllPosts),
               login_user (new_user h e pw (form_get req ''name''))
                 (s\<lparr>users := users s @ [new_user h e pw (form_get req ''name'')]\<rparr>)) \<and>
            user_id (new_user h e pw (form_get req ''name'')) \<notin> user_id ` set (users s))"
  using assms(2-) next_id_fresh [of "map user_id (users s)"]
  by (simp add: register_def Let_def new_user_def)

text \<open>An instance.\<close>

theorem register_duplicate_email_witness:
  "register (\<lambda>f. True) (\<lambda>pw. pw)
     \<lparr>req_method = POST,
      req_form = [(''email'', ''alice@x.com''), (''password'', ''other''), (''name'', ''Eve'')]\<rparr>
     \<lparr>users = [\<lparr>user_id = 1, email = Some ''alice@x.com'', password = ''pw1'', name = Some ''Alice''\<rparr>],
      blog_posts = [], comments = [], session_user_id = None, flashes = []\<rparr>
   = (Inl IntegrityError,
     \<lparr>users = [\<lparr>user_id = 1, email = Some ''alice@x.com'', password = ''pw1'', name = Some ''Alice''\<rparr>],
      blog_posts = [], comments = [], session_user_id = None, flashes = []\<rparr>)"
  (is "register ?v ?h ?req ?s = _")
  using register_duplicate_email [of ?v ?req "''alice@x.com''" "''other''" ?s ?h]
  by (simp add: validate_on_submit_def is_submitted_def form_get_def)

subsection \<open>Comments on a post that does not exist\<close>

text \<open>
  Claim C5. A logged-in user submits a comment to a post id that no post has:
  \<^verbatim>\<open>BlogPost.query.get\<close> returns \<^verbatim>\<open>None\<close>, the comment is built with \<^verbatim>\<open>post=None\<close> and is
  committed with no target post. The request raises no error.
\<close>

theorem show_post_missing_post_stores_comment:
  assumes "validate_on_submit validate req"
    and "current_user s = Some u"
    and "form_get req ''comment'' = Some txt"
    and "get_post s pid = None"
  shows "show_post validate req pid s =
           (Inr (PostPage None (comments s)),
            s\<lparr>comments := comments s @
                 [\<lparr>comment_id = next_id (map comment_id (comments s)),
                   comment_author_id = Some (user_id u),
                   comment_post_id = None,
                   comment_text = txt\<rparr>]\<rparr>)"
  using assms by (simp add: show_post_def)

text \<open>An instance.\<close>

theorem show_post_missing_post_stores_comment_witness:
  "show_post (\<lambda>f. True) \<lparr>req_method = POST, req_form = [(''comment'', ''Nice post'')]\<rparr> 7
     \<lparr>users = [\<lparr>user_id = 1, email = Some ''alice@x.com'', password = ''pw1'', name = Some ''Alice''\<rparr>],
      blog_posts = [], comments = [], session_user_id = Some 1, flashes = []\<rparr>
   = (Inr (PostPage None []),
     \<lparr>users = [\<lparr>user_id = 1, email = Some ''alice@x.com'', password = ''pw1'', name = Some ''Alice''\<rparr>],
      blog_posts = [],
      comments = [\<lparr>comment_id = 1, comment_author_id = Some 1, comment_post_id = None,
                   comment_text = ''Nice post''\<rparr>],
      session_user_id = Some 1, flashes = []\<rparr>)"
  (is "show_post ?v ?req 7 ?s = _")
  using show_post_missing_post_stores_comment [of ?v ?req ?s
      "\<lparr>user_id = 1, email = Some ''alice@x.com'', password = ''pw1'', name = Some ''Alice''\<rparr>"
      "''Nice post''" 7]
  by (simp add: validate_on_submit_def is_submitted_def current_user_def load_user_def
      form_get_def get_post_def next_id_def)

subsection \<open>Editing a post\<close>

text \<open>
  Claim C6. The route of \<^verbatim>\<open>edit_post\<close> names no methods, so it answers \<^verbatim>\<open>GET\<close> (and
  \<^verbatim>\<open>HEAD\<close>) only, and a form is never submitted by these methods: no request to
  \<^verbatim>\<open>/edit-post/<id>\<close>, whoever sends it and whatever it carries, changes the state.
\<close>

theorem edit_post_never_updates:
  "snd (dispatch_request e (EditPost pid) req s) = s"
proof -
  have "\<not> validate_on_submit v req" if "method_allowed (EditPost pid) (req_method req)" for v
    using that by (auto simp: method_allowed_def validate_on_submit_def is_submitted_def)
  then show ?thesis
    by (simp add: dispatch_request_def edit_post_def login_required_def admin_only_def
        edit_post_body_def split: option.splits)
qed

text \<open>A \<^verbatim>\<open>POST\<close> to the route is refused before the view runs.\<close>

lemma edit_post_POST_not_allowed:
  "req_method req = POST \<Longrightarrow>
   dispatch_request e (EditPost pid) req s = (Inl MethodNotAllowed, s)"
  by (simp add: dispatch_request_def method_allowed_def)

subsection \<open>The comments of a post page\<close>

text \<open>
  Claim C7. The comments \<^verbatim>\<open>show_post\<close> passes to the template are all the comments of
  the table, whatever post is viewed: a request that submits no valid form gets the page
  with them, and every page \<^verbatim>\<open>show_post\<close> answers with holds them.
\<close>

theorem show_post_lists_all_comments:
  "(\<not> validate_on_submit validate req \<longrightarrow>
      show_post validate req pid s = (Inr (PostPage (get_post s pid) (comments s)), s)) \<and>
   (\<forall>page. fst (show_post validate req pid s) = Inr page \<longrightarrow>
      page = PostPage (get_post s pid) (comments s))"
  by (auto simp: show_post_def Let_def split: option.splits)

text \<open>An instance.\<close>

theorem show_post_lists_all_comments_witness:
  "show_post (\<lambda>f. True) \<lparr>req_method = GET, req_form = []\<rparr> 1
     \<lparr>users = [],
      blog_posts = [\<lparr>post_id = 1, author_id = Some 1, title = ''Hello'', subtitle = ''First'',
                     date = ''November 06, 2026'', body = ''Text'', img_url = ''http://x/i.png''\<rparr>],
      comments = [\<lparr>comment_id = 1, comment_author_id = Some 1, comment_post_id = Some 1,
                   comment_text = ''on Hello''\<rparr>,
                  \<lparr>comment_id = 2, comment_author_id = Some 1, comment_post_id = Some 2,
                   comment_text = ''on another post''\<rparr>],
      session_user_id = None, flashes = []\<rparr>
   = (Inr (PostPage
            (Some \<lparr>post_id = 1, author_id = Some 1, title = ''Hello'', subtitle = ''First'',
                     date = ''November 06, 2026'', body = ''Text'', img_url = ''http://x/i.png''\<rparr>)
            [\<lparr>comment_id = 1, comment_author_id = Some 1, comment_post_id = Some 1,
                   comment_text = ''on Hello''\<rparr>,
             \<lparr>comment_id = 2, comment_author_id = Some 1, comment_post_id = Some 2,
                   comment_text = ''on another post''\<rparr>]),
     \<lparr>users = [],
      blog_posts = [\<lparr>post_id = 1, author_id = Some 1, title = ''Hello'', subtitle = ''First'',
                     date = ''November 06, 2026'', body = ''Text'', img_url = ''http://x/i.png''\<rparr>],
      comments = [\<lparr>comment_id = 1, comment_author_id = Some 1, comment_post_id = Some 1,
                   comment_text = ''on Hello''\<rparr>,
                  \<lparr>comment_id = 2, comment_author_id = Some 1, comment_post_id = Some 2,
                   comment_text = ''on another post''\<rparr>],
      session_user_id = None, flashes = []\<rparr>)"
  (is "show_post ?v ?req 1 ?s = _")
  using show_post_lists_all_comments [of ?v ?req 1 ?s, THEN conjunct1]
  by (simp add: validate_on_submit_def is_submitted_def get_post_def)

subsection \<open>Deleting a post\<close>

text \<open>
  Claim C8. The administrator deletes an existing post: the post is gone, and the
  comments are the same rows as before, with their ids, authors and texts. The comments
  of other posts are unchanged, the comments of the deleted post have lost their target.
\<close>

theorem delete_post_keeps_comments:
  assumes "current_user s = Some a" and "user_id a = 1" and "get_post s pid = Some p"
  shows "\<exists>s'. delete_post pid s = (Inr (Redirect GetAllPosts), s') \<and>
           get_post s' pid = None \<and>
           map comment_id (comments s') = map comment_id (comments s) \<and>
           map comment_author_id (comments s') = map comment_author_id (comments s) \<and>
           map comment_text (comments s') = map comment_text (comments s) \<and>
           (\<forall>c \<in> set (comments s). comment_post_id c \<noteq> Some pid \<longrightarrow> c \<in> set (comments s')) \<and>
           (\<forall>c \<in> set (comments s). comment_post_id c = Some pid \<longrightarrow>
              c\<lparr>comment_post_id := None\<rparr> \<in> set (comments s'))"
  using assms
  by (auto simp: delete_post_def login_required_def admin_only_def delete_post_body_def
      get_post_def find_None_iff image_iff)

text \<open>An instance.\<close>

theorem delete_post_keeps_comments_witness:
  "delete_post 1
     \<lparr>users = [\<lparr>user_id = 1, email = Some ''alice@x.com'', password = ''pw1'', name = Some ''Alice''\<rparr>],
      blog_posts = [\<lparr>post_id = 1, author_id = Some 1, title = ''Hello'', subtitle = ''First'',
                     date = ''November 06, 2026'', body = ''Text'', img_url = ''http://x/i.png''\<rparr>],
      comments = [\<lparr>comment_id = 1, comment_author_id = Some 1, comment_post_id = Some 1,
                   comment_text = ''on Hello''\<rparr>],
      session_user_id = Some 1, flashes = []\<rparr>
   = (Inr (Redirect GetAllPosts),
     \<lparr>users = [\<lparr>user_id = 1, email = Some ''alice@x.com'', password = ''pw1'', name = Some ''Alice''\<rparr>],
      blog_posts = [],
      comments = [\<lparr>comment_id = 1, comment_author_id = Some 1, comment_post_id = None,
                   comment_text = ''on Hello''\<rparr>],
      session_user_id = Some 1, flashes = []\<rparr>)"
  (is "delete_post 1 ?s = _")
proof -
  from delete_post_keeps_comments [of ?s
      "\<lparr>user_id = 1, email = Some ''alice@x.com'', password = ''pw1'', name = Some ''Alice''\<rparr>" 1
      "\<lparr>post_id = 1, author_id = Some 1, title = ''Hello'', subtitle = ''First'',
        date = ''November 06, 2026'', body = ''Text'', img_url = ''http://x/i.png''\<rparr>"]
  obtain s' where "delete_post 1 ?s = (Inr (Redirect GetAllPosts), s')"
    by (auto simp: current_user_def load_user_def get_post_def)
  then show ?thesis
    by (simp add: delete_post_def login_required_def admin_only_def delete_post_body_def
        current_user_def load_user_def get_post_def)
qed

subsection \<open>Login and logout leave the tables alone\<close>

text \<open>
  Claim C9. Whatever \<^verbatim>\<open>login\<close> answers, the three tables are as before and the state
  differs at most in the session (the user id, and the flash message of a wrong
  password); \<^verbatim>\<open>logout\<close> only removes the user id from the session.
\<close>

theorem login_logout_keep_tables:
  "users (snd (login v c req s)) = users s \<and>
   blog_posts (snd (login v c req s)) = blog_posts s \<and>
   comments (snd (login v c req s)) = comments s \<and>
   (snd (login v c req s))\<lparr>session_user_id := session_user_id s, flashes := flashes s\<rparr> = s \<and>
   users (snd (logout s)) = users s \<and>
   blog_posts (snd (logout s)) = blog_posts s \<and>
   comments (snd (logout s)) = comments s \<and>
   snd (logout s) = s\<lparr>session_user_id := None\<rparr>"
  by (simp add: login_def logout_def login_user_def logout_user_def flash_def
      split: option.splits)

subsection \<open>Registration and the content of the fields\<close>

text \<open>
  Claim C10, as amended. \<^verbatim>\<open>register\<close> itself looks at no field: for every email, password
  and name, the empty strings among them, with an email no user has, the user is created
  when \<^verbatim>\<open>validate_on_submit\<close> of the registration form holds, and when it does not hold
  the form is shown again and nothing is created.
\<close>

theorem register_creates_whenever_form_validates:
  assumes "form_get req ''email'' = Some e"
    and "form_get req ''password'' = Some pw"
    and "form_get req ''name'' = Some n"
    and "Some e \<notin> email ` set (users s)"
  shows "(validate_on_submit validate req \<longrightarrow>
            register validate h req s =
              (Inr (Redirect GetAllPosts),
               login_user \<lparr>user_id = next_id (map user_id (users s)), email = Some e,
                           password = h pw, name = Some n\<rparr>
                 (s\<lparr>users := users s @
                      [\<lparr>user_id = next_id (map user_id (users s)), email = Some e,
                        password = h pw, name = Some n\<rparr>]\<rparr>))) \<and>
         (\<not> validate_on_submit validate req \<longrightarrow>
            register validate h req s = (Inr RegisterPage, s))"
  using assms by (simp add: register_def Let_def)

text \<open>The form's own validation decides first: with a form that wants a name, a
  registration with an unused email and an empty name creates no user.\<close>

theorem register_rejected_by_form_counterexample:
  "register (\<lambda>f. map_of f ''name'' \<noteq> Some []) (\<lambda>pw. pw)
     \<lparr>req_method = POST,
      req_form = [(''email'', ''alice@x.com''), (''password'', ''pw1''), (''name'', [])]\<rparr>
     init_state
   = (Inr RegisterPage, init_state)"
  by (simp add: register_def validate_on_submit_def is_submitted_def)

text \<open>An instance.\<close>

theorem register_creates_whenever_form_validates_witness:
  "register (\<lambda>f. True) (\<lambda>pw. pw)
     \<lparr>req_method = POST, req_form = [(''email'', []), (''password'', []), (''name'', [])]\<rparr>
     init_state
   = (Inr (Redirect GetAllPosts),
      \<lparr>users = [\<lparr>user_id = 1, email = Some [], password = [], name = Some []\<rparr>],
       blog_posts = [], comments = [], session_user_id = Some 1, flashes = []\<rparr>)"
  (is "register ?v ?h ?req _ = _")
  using register_creates_whenever_form_validates [of ?req "[]" "[]" "[]" init_state ?v ?h]
  by (simp add: validate_on_submit_def is_submitted_def form_get_def init_state_def next_id_def
      login_user_def)

end
